theory Spec2Isabelle
  imports Complex_Main
begin

section \<open>The AFK watcher: data model\<close>

text \<open>
  The embedding follows \<^verbatim>\<open>aw_watcher_afk/afk.py\<close> and \<^verbatim>\<open>aw_watcher_afk/__main__.py\<close>.

  Numbers of seconds (Python ints and floats) are exact rationals: the comparisons
  \<^verbatim>\<open><\<close> and \<^verbatim>\<open>>=\<close> of Python are exact on mixed ints and floats, zero is the
  only falsy number, and the rounding of float addition, NaN and the infinities are outside
  the model. A \<^verbatim>\<open>datetime\<close> is an integer number of microseconds since the epoch
  and a \<^verbatim>\<open>timedelta\<close> an integer number of microseconds, both without the range
  limits of the library.
\<close>

datatype exn =
    AssertionError
  | KeyError string
  | KeyboardInterrupt
  | Exception string

type_synonym config = "string \<rightharpoonup> rat"

record settings =
  timeout :: rat
  poll_time :: rat

record afkwatcher =
  settings :: settings
  bucketname :: string

record event =
  timestamp :: int
  duration :: rat
  data :: "(string \<times> string) list"

text \<open>
  What the program does to its collaborators, in the order it does it: the calls on the
  \<^verbatim>\<open>ActivityWatchClient\<close> (with their arguments), the logging set-up and the
  sleep at the end of a tick. \<open>Sleep d\<close> in a trace is a sleep of \<open>d\<close> seconds that has
  returned. Log lines are not recorded.
\<close>

datatype effect =
    Setup_logging string bool bool bool bool
  | Wait_for_start
  | Create_bucket string string bool
  | Client_enter
  | Heartbeat string event rat bool
  | Sleep rat
  | Client_exit

text \<open>
  The state that the methods of \<^verbatim>\<open>AFKWatcher\<close> run on: the object itself and the
  trace of effects so far.
\<close>

record world =
  self :: afkwatcher
  trace :: "effect list"

text \<open>
  The namespace that \<^verbatim>\<open>parse_args()\<close> returns (that function is in
  \<^verbatim>\<open>config.py\<close>, which is not part of the sources at hand): the attributes that
  \<^verbatim>\<open>main\<close> and \<^verbatim>\<open>AFKWatcher.__init__\<close> read, the two overrides being
  \<^verbatim>\<open>None\<close> or a number.
\<close>

record args =
  args_timeout :: "rat option"
  args_poll_time :: "rat option"
  args_testing :: bool
  args_verbose :: bool

text \<open>
  What one pass through the body of \<^verbatim>\<open>while True\<close> meets: the parent's process
  id, the clock, the idle time, and the exception (if any) that is raised inside the
  \<^verbatim>\<open>try\<close> block. \<open>raised = Some (k, e)\<close> says that \<open>e\<close> is raised when exactly \<open>k\<close>
  of the effects of this pass have been performed (all of them when the pass has fewer):
  a \<^verbatim>\<open>KeyboardInterrupt\<close> delivered by the interpreter, or an exception of a
  collaborator. The parent check comes first and calls no collaborator, so a pass that
  stops there has no effect whatever \<open>raised\<close> says.
\<close>

record tick_env =
  ppid :: nat
  now :: int
  seconds_since_input :: rat
  raised :: "(nat \<times> exn) option"

text \<open>
  How a run stands at the end of the observed ticks: the loop is still alive (with the
  value of its local variable \<^verbatim>\<open>afk\<close>), the code has returned normally, an exception
  has left it, or \<^verbatim>\<open>sys.exit\<close> has ended the process with a code.
\<close>

datatype outcome =
    Running bool
  | Returned
  | Raised exn
  | Exited int

section \<open>Settings\<close>

text \<open>\<^verbatim>\<open>config_section[key]\<close>.\<close>

definition getitem :: "config \<Rightarrow> string \<Rightarrow> exn + rat" where
  "getitem config_section key =
     (case config_section key of None \<Rightarrow> Inl (KeyError key) | Some v \<Rightarrow> Inr v)"

text \<open>
  \<^verbatim>\<open>x or y\<close> for an optional number \<open>x\<close>: \<open>x\<close> when it is truthy (neither
  \<^verbatim>\<open>None\<close> nor zero), and the value of \<open>y\<close>, which is evaluated only then, otherwise.
\<close>

definition or_else :: "rat option \<Rightarrow> exn + rat \<Rightarrow> exn + rat" where
  "or_else x y = (case x of None \<Rightarrow> y | Some v \<Rightarrow> if v = 0 then y else Inr v)"

text \<open>
  \<^verbatim>\<open>Settings.__init__\<close>. The two attributes are resolved in the order of the source,
  so a missing \<open>timeout\<close> key is reported first; the failed \<^verbatim>\<open>assert\<close> is
  \<open>AssertionError\<close> (assertions are on, as they are unless the interpreter runs with
  \<^verbatim>\<open>-O\<close>).
\<close>

definition Settings_init :: "config \<Rightarrow> rat option \<Rightarrow> rat option \<Rightarrow> exn + settings" where
  "Settings_init config_section timeout' poll_time' =
     (case or_else timeout' (getitem config_section ''timeout'') of
        Inl e \<Rightarrow> Inl e
      | Inr t \<Rightarrow>
          (case or_else poll_time' (getitem config_section ''poll_time'') of
             Inl e \<Rightarrow> Inl e
           | Inr p \<Rightarrow>
               if p \<le> t then Inr \<lparr>timeout = t, poll_time = p\<rparr> else Inl AssertionError))"

text \<open>
  The resolution rule in the words of the specification, for comparison: the override if
  one is provided, else the value of the configuration.
\<close>

definition spec_resolve :: "rat option \<Rightarrow> rat \<Rightarrow> rat" where
  "spec_resolve override config_value = (case override of Some v \<Rightarrow> v | None \<Rightarrow> config_value)"

section \<open>The watcher\<close>

text \<open>
  \<^verbatim>\<open>AFKWatcher.__init__\<close>. \<open>load_config\<close> stands for the function of that name in
  \<^verbatim>\<open>config.py\<close>, \<open>username\<close> for the string that \<^verbatim>\<open>get_logged_in_user()\<close>
  returns on this machine and \<open>client_hostname\<close> for the attribute of the client.
\<close>

definition AFKWatcher_init ::
    "(bool \<Rightarrow> config) \<Rightarrow> string \<Rightarrow> string \<Rightarrow> args \<Rightarrow> bool \<Rightarrow> exn + afkwatcher" where
  "AFKWatcher_init load_config username client_hostname a testing =
     (case Settings_init (load_config testing) (args_timeout a) (args_poll_time a) of
        Inl e \<Rightarrow> Inl e
      | Inr st \<Rightarrow> Inr \<lparr>settings = st, bucketname = username @ ''-afk_'' @ client_hostname\<rparr>)"

definition emit :: "effect \<Rightarrow> world \<Rightarrow> world" where
  "emit c s = s\<lparr>trace := trace s @ [c]\<rparr>"

text \<open>\<^verbatim>\<open>AFKWatcher.ping\<close>.\<close>

definition ping :: "bool \<Rightarrow> int \<Rightarrow> rat \<Rightarrow> world \<Rightarrow> world" where
  "ping afk timestamp' duration' s =
     (let data' = [(''status'', if afk then ''afk'' else ''not-afk'')];
          e = \<lparr>timestamp = timestamp', duration = duration', data = data'\<rparr>;
          pulsetime = timeout (settings (self s)) + poll_time (settings (self s))
      in emit (Heartbeat (bucketname (self s)) e pulsetime True) s)"

text \<open>\<^verbatim>\<open>td1ms = timedelta(milliseconds=1)\<close>, in microseconds.\<close>

definition td1ms :: int where
  "td1ms = 1000"

text \<open>
  \<^verbatim>\<open>timedelta(seconds=x)\<close>: the nearest number of microseconds, a tie going to the
  even one.
\<close>

definition round_half_even :: "rat \<Rightarrow> int" where
  "round_half_even x =
     (let f = \<lfloor>x\<rfloor>; r = x - of_int f
      in if r < 1 / 2 then f else if 1 / 2 < r then f + 1 else if even f then f else f + 1)"

definition timedelta_seconds :: "rat \<Rightarrow> int" where
  "timedelta_seconds x = round_half_even (x * 1000000)"

text \<open>
  The body of the \<^verbatim>\<open>try\<close> block after the parent check, when nothing is raised in
  it: the new value of \<^verbatim>\<open>afk\<close> and the state after the sleep.
\<close>

definition tick_body :: "bool \<Rightarrow> tick_env \<Rightarrow> world \<Rightarrow> bool \<times> world" where
  "tick_body afk env s =
     (let seconds = seconds_since_input env;
          last_input = now env - timedelta_seconds seconds
      in if afk \<and> seconds < timeout (settings (self s)) then
           (let s1 = ping afk last_input 0 s;
                afk' = False;
                s2 = ping afk' (last_input + td1ms) 0 s1
            in (afk', emit (Sleep (poll_time (settings (self s2)))) s2))
         else if \<not> afk \<and> timeout (settings (self s)) \<le> seconds then
           (let s1 = ping afk last_input 0 s;
                afk' = True;
                s2 = ping afk' (last_input + td1ms) seconds s1
            in (afk', emit (Sleep (poll_time (settings (self s2)))) s2))
         else
           (let s1 = (if afk then ping afk (last_input + td1ms) seconds s
                      else ping afk last_input 0 s)
            in (afk, emit (Sleep (poll_time (settings (self s1)))) s1)))"

text \<open>
  The state in which an exception leaves a pass that started in \<open>s\<close> and would have ended
  in \<open>s'\<close>: only the first \<open>k\<close> of the effects of the pass have happened.
\<close>

definition cut_at :: "nat \<Rightarrow> world \<Rightarrow> world \<Rightarrow> world" where
  "cut_at k s s' = s'\<lparr>trace := trace s @ take k (drop (length (trace s)) (trace s'))\<rparr>"

text \<open>
  The \<^verbatim>\<open>while True\<close> loop of \<^verbatim>\<open>heartbeat_loop\<close> on the ticks observed so far,
  from a value of \<^verbatim>\<open>afk\<close>. \<open>system\<close> is \<^verbatim>\<open>platform.system()\<close>, which the
  module accepts at import only when it is Windows, Darwin or Linux.
\<close>

fun loop :: "string \<Rightarrow> bool \<Rightarrow> tick_env list \<Rightarrow> world \<Rightarrow> outcome \<times> world" where
  "loop system afk [] s = (Running afk, s)"
| "loop system afk (env # envs) s =
     (if system \<in> set [''Darwin'', ''Linux''] \<and> ppid env = 1 then (Returned, s)
      else
        (case tick_body afk env s of
           (afk', s') \<Rightarrow>
             (case raised env of
                None \<Rightarrow> loop system afk' envs s'
              | Some (k, e) \<Rightarrow>
                  if e = KeyboardInterrupt then (Returned, cut_at k s s')
                  else (Raised e, cut_at k s s'))))"

text \<open>\<^verbatim>\<open>AFKWatcher.heartbeat_loop\<close>: the loop from \<^verbatim>\<open>afk = False\<close>.\<close>

definition heartbeat_loop :: "string \<Rightarrow> tick_env list \<Rightarrow> world \<Rightarrow> outcome \<times> world" where
  "heartbeat_loop system envs s = loop system False envs s"

text \<open>
  \<^verbatim>\<open>AFKWatcher.run\<close>. The \<^verbatim>\<open>with\<close> statement leaves the client when the loop
  returns and when an exception leaves it.
\<close>

definition run :: "string \<Rightarrow> tick_env list \<Rightarrow> world \<Rightarrow> outcome \<times> world" where
  "run system envs s =
     (let s1 = emit Wait_for_start s;
          eventtype = ''afkstatus'';
          s2 = emit (Create_bucket (bucketname (self s1)) eventtype True) s1;
          s3 = emit Client_enter s2
      in case heartbeat_loop system envs s3 of
           (Running afk, s4) \<Rightarrow> (Running afk, s4)
         | (out, s4) \<Rightarrow> (out, emit Client_exit s4))"

section \<open>The entry point\<close>

text \<open>\<^verbatim>\<open>running_over_ssh\<close>, on \<^verbatim>\<open>os.environ\<close>; the empty string is falsy.\<close>

definition truthy :: "string option \<Rightarrow> bool" where
  "truthy v = (case v of None \<Rightarrow> False | Some x \<Rightarrow> x \<noteq> [])"

definition running_over_ssh :: "(string \<rightharpoonup> string) \<Rightarrow> bool" where
  "running_over_ssh environ = (truthy (environ ''SSH_CLIENT'') \<or> truthy (environ ''SSH_TTY''))"

text \<open>
  \<^verbatim>\<open>main\<close>, from the namespace that \<^verbatim>\<open>parse_args()\<close> has returned: the outcome
  of the process and everything it did.
\<close>

definition main ::
    "(string \<rightharpoonup> string) \<Rightarrow> args \<Rightarrow> (bool \<Rightarrow> config) \<Rightarrow> string \<Rightarrow> string \<Rightarrow> string \<Rightarrow>
     tick_env list \<Rightarrow> outcome \<times> effect list" where
  "main environ a load_config username client_hostname system envs =
     (if running_over_ssh environ then (Exited 0, [])
      else
        (let t0 = [Setup_logging ''aw-watcher-afk'' (args_testing a) (args_verbose a) True True]
         in case AFKWatcher_init load_config username client_hostname a (args_testing a) of
              Inl e \<Rightarrow> (Raised e, t0)
            | Inr watcher \<Rightarrow>
                (case run system envs \<lparr>self = watcher, trace = t0\<rparr> of
                   (out, s) \<Rightarrow> (out, trace s))))"

text \<open>Observations on a trace: the heartbeats in it, and the bucket a call names.\<close>

fun status_of :: "event \<Rightarrow> string option" where
  "status_of e = map_of (data e) ''status''"

fun heartbeats :: "effect list \<Rightarrow> (string option \<times> int \<times> rat) list" where
  "heartbeats [] = []"
| "heartbeats (Heartbeat b e p q # cs) = (status_of e, timestamp e, duration e) # heartbeats cs"
| "heartbeats (c # cs) = heartbeats cs"

fun bucket_of :: "effect \<Rightarrow> string option" where
  "bucket_of (Create_bucket b t q) = Some b"
| "bucket_of (Heartbeat b e p q) = Some b"
| "bucket_of c = None"

fun pulsetime_of :: "effect \<Rightarrow> rat option" where
  "pulsetime_of (Heartbeat b e p q) = Some p"
| "pulsetime_of c = None"

text \<open>
  A call is stamped by a watcher when the bucket it names (if it names one) is the watcher's
  and its pulsetime (if it has one) is the sum of the watcher's two settings.
\<close>

definition stamped :: "afkwatcher \<Rightarrow> effect \<Rightarrow> bool" where
  "stamped w c =
     ((case bucket_of c of None \<Rightarrow> True | Some b \<Rightarrow> b = bucketname w) \<and>
      (case pulsetime_of c of None \<Rightarrow> True
       | Some p \<Rightarrow> p = timeout (settings w) + poll_time (settings w)))"

section \<open>Settings resolution\<close>

lemma or_else_not_assert:
  "or_else x (getitem c k) \<noteq> Inl AssertionError"
  by (simp add: or_else_def getitem_def split: option.splits)

text \<open>
  C4. \<^verbatim>\<open>Settings.__init__\<close> fails with the assertion error (the specification's
  InvalidConfiguration) exactly when both values resolve and the resolved timeout is
  below the resolved poll time; when they resolve with the timeout at least the poll
  time, it returns the settings made of the two values.
\<close>

theorem Settings_init_fails_iff:
  "(Settings_init c t p = Inl AssertionError \<longleftrightarrow>
      (\<exists>tm pt. or_else t (getitem c ''timeout'') = Inr tm \<and>
               or_else p (getitem c ''poll_time'') = Inr pt \<and> tm < pt)) \<and>
   (\<forall>tm pt. or_else t (getitem c ''timeout'') = Inr tm \<and>
            or_else p (getitem c ''poll_time'') = Inr pt \<and> pt \<le> tm \<longrightarrow>
            Settings_init c t p = Inr \<lparr>timeout = tm, poll_time = pt\<rparr>)"
proof -
  have no_assert: "\<And>x k. or_else x (getitem c k) \<noteq> Inl AssertionError"
    by (rule or_else_not_assert)
  show ?thesis
  proof (cases "or_else t (getitem c ''timeout'')")
    case (Inl e)
    with no_assert [of t "''timeout''"] show ?thesis
      by (auto simp: Settings_init_def)
  next
    case tm: (Inr tm)
    show ?thesis
    proof (cases "or_else p (getitem c ''poll_time'')")
      case (Inl e)
      with tm no_assert [of p "''poll_time''"] show ?thesis
        by (auto simp: Settings_init_def)
    next
      case (Inr pt)
      with tm show ?thesis
        by (auto simp: Settings_init_def)
    qed
  qed
qed

text \<open>
  C4 at a configuration of timeout 3 and poll time 5 (the assertion fails), and at one of
  timeout 180 and poll time 5 with the timeout overridden by 60 (the settings are returned).
\<close>

theorem Settings_init_fails_iff_witness:
  "Settings_init (map_of [(''timeout'', 3), (''poll_time'', 5)]) None None = Inl AssertionError \<and>
   Settings_init (map_of [(''timeout'', 180), (''poll_time'', 5)]) (Some 60) None =
     Inr \<lparr>timeout = 60, poll_time = 5\<rparr>"
  using Settings_init_fails_iff [of "map_of [(''timeout'', 3), (''poll_time'', 5)]" None None]
    Settings_init_fails_iff [of "map_of [(''timeout'', 180), (''poll_time'', 5)]" "Some 60" None]
  by (simp add: or_else_def getitem_def)

text \<open>
  C5, as stated, fails. With a configured timeout of 180 and the override 0 provided, the
  resolved timeout is the configured 180, not the override.
\<close>

theorem override_zero_counterexample:
  "Settings_init (map_of [(''timeout'', 180), (''poll_time'', 5)]) (Some 0) None =
     Inr \<lparr>timeout = 180, poll_time = 5\<rparr> \<and>
   spec_resolve (Some 0) 180 \<noteq> 180"
  by (simp add: Settings_init_def or_else_def getitem_def spec_resolve_def)

text \<open>
  C5, amended. \<^verbatim>\<open>Settings.__init__\<close> returns settings \<open>st\<close> exactly when the timeout
  of \<open>st\<close> is the override if one is provided and is not zero, and the configured timeout
  otherwise (an override of zero counts as not provided), the poll time of \<open>st\<close> is
  the override if one is provided and is not zero, and the configured poll time otherwise,
  and the poll time is at most the timeout.
\<close>

theorem Settings_init_resolution:
  "Settings_init c t p = Inr st \<longleftrightarrow>
     (if t = None \<or> t = Some 0 then c ''timeout'' = Some (timeout st)
      else t = Some (timeout st)) \<and>
     (if p = None \<or> p = Some 0 then c ''poll_time'' = Some (poll_time st)
      else p = Some (poll_time st)) \<and>
     poll_time st \<le> timeout st"
  by (cases st)
    (auto simp: Settings_init_def or_else_def getitem_def split: option.splits sum.splits)

text \<open>
  The amended C5 at a configuration of timeout 180 and poll time 5: the timeout overridden
  by 60, and the poll time overridden by 0.
\<close>

theorem Settings_init_resolution_witness:
  "Settings_init (map_of [(''timeout'', 180), (''poll_time'', 5)]) (Some 60) None =
     Inr \<lparr>timeout = 60, poll_time = 5\<rparr> \<and>
   Settings_init (map_of [(''timeout'', 180), (''poll_time'', 5)]) None (Some 0) =
     Inr \<lparr>timeout = 180, poll_time = 5\<rparr>"
  using Settings_init_resolution [of "map_of [(''timeout'', 180), (''poll_time'', 5)]" "Some 60" None
      "\<lparr>timeout = 60, poll_time = 5\<rparr>"]
    Settings_init_resolution [of "map_of [(''timeout'', 180), (''poll_time'', 5)]" None "Some 0"
      "\<lparr>timeout = 180, poll_time = 5\<rparr>"]
  by simp

section \<open>Effects of the methods\<close>

lemma self_emit [simp]: "self (emit c s) = self s"
  by (simp add: emit_def)

lemma trace_emit [simp]: "trace (emit c s) = trace s @ [c]"
  by (simp add: emit_def)

lemma self_ping [simp]: "self (ping afk ts d s) = self s"
  by (simp add: ping_def Let_def)

lemma trace_ping [simp]:
  "trace (ping afk ts d s) =
     trace s @ [Heartbeat (bucketname (self s))
                  \<lparr>timestamp = ts, duration = d,
                   data = [(''status'', if afk then ''afk'' else ''not-afk'')]\<rparr>
                  (timeout (settings (self s)) + poll_time (settings (self s))) True]"
  by (simp add: ping_def Let_def)

lemma world_eqI: "self s = self s' \<Longrightarrow> trace s = trace s' \<Longrightarrow> (s :: world) = s'"
  by simp

lemma self_tick_body: "self (snd (tick_body afk env s)) = self s"
  by (simp add: tick_body_def Let_def)

lemma fst_tick_body:
  "fst (tick_body afk env s) = (timeout (settings (self s)) \<le> seconds_since_input env)"
  by (auto simp: tick_body_def Let_def)

lemma tick_body_effects:
  "\<exists>effs. snd (tick_body afk env s) = s\<lparr>trace := trace s @ effs\<rparr> \<and>
          (\<forall>c \<in> set effs. stamped (self s) c)"
proof -
  let ?effs = "drop (length (trace s)) (trace (snd (tick_body afk env s)))"
  have "snd (tick_body afk env s) = s\<lparr>trace := trace s @ ?effs\<rparr>"
    by (rule world_eqI) (simp_all add: tick_body_def Let_def)
  moreover have "\<forall>c \<in> set ?effs. stamped (self s) c"
    by (simp add: tick_body_def Let_def stamped_def)
  ultimately show ?thesis by blast
qed

lemma cut_at_effects:
  "cut_at k s (s\<lparr>trace := trace s @ effs\<rparr>) = s\<lparr>trace := trace s @ take k effs\<rparr>"
  by (simp add: cut_at_def)

lemma loop_parent_died:
  "system \<in> set [''Darwin'', ''Linux''] \<and> ppid env = 1 \<Longrightarrow>
   loop system afk (env # envs) s = (Returned, s)"
  by simp

lemma loop_tick:
  "\<not> (system \<in> set [''Darwin'', ''Linux''] \<and> ppid env = 1) \<Longrightarrow> raised env = None \<Longrightarrow>
   tick_body afk env s = (afk', s') \<Longrightarrow>
   loop system afk (env # envs) s = loop system afk' envs s'"
  by auto

lemma loop_raised:
  "\<not> (system \<in> set [''Darwin'', ''Linux''] \<and> ppid env = 1) \<Longrightarrow> raised env = Some (k, e) \<Longrightarrow>
   tick_body afk env s = (afk', s') \<Longrightarrow>
   loop system afk (env # envs) s =
     (if e = KeyboardInterrupt then Returned else Raised e, cut_at k s s')"
  by auto

lemma loop_effects:
  "\<exists>effs. snd (loop system afk envs s) = s\<lparr>trace := trace s @ effs\<rparr> \<and>
          (\<forall>c \<in> set effs. stamped (self s) c)"
proof (induction envs arbitrary: afk s)
  case Nil
  have "snd (loop system afk [] s) = s\<lparr>trace := trace s @ []\<rparr>" by simp
  then show ?case by (metis empty_iff list.set(1))
next
  case (Cons env envs)
  obtain e1 where e1: "snd (tick_body afk env s) = s\<lparr>trace := trace s @ e1\<rparr>"
      and g1: "\<forall>c \<in> set e1. stamped (self s) c"
    using tick_body_effects by blast
  obtain afk' where tb: "tick_body afk env s = (afk', s\<lparr>trace := trace s @ e1\<rparr>)"
    using e1 by (cases "tick_body afk env s") simp
  show ?case
  proof (cases "system \<in> set [''Darwin'', ''Linux''] \<and> ppid env = 1")
    case True
    then have "snd (loop system afk (env # envs) s) = s\<lparr>trace := trace s @ []\<rparr>"
      by (simp only: loop_parent_died) simp
    then show ?thesis by (metis empty_iff list.set(1))
  next
    case alive: False
    show ?thesis
    proof (cases "raised env")
      case None
      obtain e2 where e2: "snd (loop system afk' envs (s\<lparr>trace := trace s @ e1\<rparr>)) =
            s\<lparr>trace := trace s @ e1\<rparr>\<lparr>trace := trace (s\<lparr>trace := trace s @ e1\<rparr>) @ e2\<rparr>"
          and g2: "\<forall>c \<in> set e2. stamped (self (s\<lparr>trace := trace s @ e1\<rparr>)) c"
        using Cons.IH by blast
      have "snd (loop system afk (env # envs) s) = s\<lparr>trace := trace s @ (e1 @ e2)\<rparr>"
        using e2 by (simp only: loop_tick [OF alive None tb]) simp
      moreover have "\<forall>c \<in> set (e1 @ e2). stamped (self s) c"
        using g1 g2 by auto
      ultimately show ?thesis by blast
    next
      case (Some ke)
      obtain k e where ke: "ke = (k, e)" by (cases ke)
      have "snd (loop system afk (env # envs) s) = s\<lparr>trace := trace s @ take k e1\<rparr>"
        using Some ke by (simp only: loop_raised [OF alive _ tb]) (simp add: cut_at_effects)
      moreover have "\<forall>c \<in> set (take k e1). stamped (self s) c"
        using g1 by (meson in_set_takeD)
      ultimately show ?thesis by blast
    qed
  qed
qed

lemma loop_append:
  "loop system afk (envs @ [env]) s =
     (case loop system afk envs s of
        (Running a, s1) \<Rightarrow> loop system a [env] s1
      | r \<Rightarrow> r)"
  by (induction envs arbitrary: afk s) (auto split: prod.splits option.splits outcome.splits)

lemma loop_single_running:
  "loop system a1 [env] s1 = (Running a, s') \<Longrightarrow> a = fst (tick_body a1 env s1)"
  by (auto split: if_splits prod.splits option.splits)

lemma loop_self: "self (snd (loop system afk envs s)) = self s"
proof -
  obtain effs where "snd (loop system afk envs s) = s\<lparr>trace := trace s @ effs\<rparr>"
    using loop_effects by blast
  then show ?thesis by simp
qed

lemma run_effects:
  "\<exists>effs. snd (run system envs s) =
            s\<lparr>trace := trace s @ Wait_for_start #
                 Create_bucket (bucketname (self s)) ''afkstatus'' True # Client_enter # effs\<rparr> \<and>
          (\<forall>c \<in> set effs. stamped (self s) c)"
proof -
  let ?s3 = "emit Client_enter (emit (Create_bucket (bucketname (self s)) ''afkstatus'' True)
               (emit Wait_for_start s))"
  obtain effs where e: "snd (loop system False envs ?s3) = ?s3\<lparr>trace := trace ?s3 @ effs\<rparr>"
      and g: "\<forall>c \<in> set effs. stamped (self ?s3) c"
    using loop_effects by blast
  obtain out where l: "loop system False envs ?s3 = (out, ?s3\<lparr>trace := trace ?s3 @ effs\<rparr>)"
    using e by (cases "loop system False envs ?s3") simp
  have x: "stamped (self s) Client_exit" by (simp add: stamped_def)
  show ?thesis
  proof (cases "\<exists>afk. out = Running afk")
    case True
    then have "snd (run system envs s) =
        s\<lparr>trace := trace s @ Wait_for_start #
             Create_bucket (bucketname (self s)) ''afkstatus'' True # Client_enter # effs\<rparr>"
      using l by (auto simp: run_def heartbeat_loop_def Let_def emit_def)
    with g show ?thesis by auto
  next
    case False
    then have "snd (run system envs s) =
        s\<lparr>trace := trace s @ Wait_for_start #
             Create_bucket (bucketname (self s)) ''afkstatus'' True # Client_enter #
             (effs @ [Client_exit])\<rparr>"
      using l by (cases out) (auto simp: run_def heartbeat_loop_def Let_def emit_def)
    moreover have "\<forall>c \<in> set (effs @ [Client_exit]). stamped (self s) c"
      using g x by auto
    ultimately show ?thesis by blast
  qed
qed

text \<open>The equations that evaluate a tick on concrete inputs.\<close>

lemmas eval_defs = tick_body_def ping_def emit_def Let_def td1ms_def timedelta_seconds_def
  round_half_even_def cut_at_def

section \<open>The transition table\<close>

text \<open>
  C1, as stated, fails. With a timeout of 10 seconds, a tick in state AFK that reads 9
  seconds of idle time at the instant 20 s does not send two \<open>not-afk\<close> heartbeats:
  the first of the pair is sent before \<^verbatim>\<open>afk\<close> is reset and so still carries the
  status \<open>afk\<close>. A heartbeat is shown as its status, timestamp and duration.
\<close>

theorem leave_afk_first_status_counterexample:
  "heartbeats (trace (snd (loop ''Linux'' True
       [\<lparr>ppid = 4242, now = 20000000, seconds_since_input = 9, raised = None\<rparr>]
       \<lparr>self = \<lparr>settings = \<lparr>timeout = 10, poll_time = 5\<rparr>, bucketname = ''u-afk_h''\<rparr>,
        trace = []\<rparr>)))
   = [(Some ''afk'', 11000000, 0), (Some ''not-afk'', 11001000, 0)] \<and>
   heartbeats (trace (snd (loop ''Linux'' True
       [\<lparr>ppid = 4242, now = 20000000, seconds_since_input = 9, raised = None\<rparr>]
       \<lparr>self = \<lparr>settings = \<lparr>timeout = 10, poll_time = 5\<rparr>, bucketname = ''u-afk_h''\<rparr>,
        trace = []\<rparr>)))
   \<noteq> [(Some ''not-afk'', 11000000, 0), (Some ''not-afk'', 11001000, 0)]"
  by (simp add: eval_defs)

text \<open>
  C1, amended. A tick in state AFK that runs to its end (the parent is alive, nothing is
  raised) and reads an idle time below the timeout sends exactly two heartbeats and then
  sleeps: first status \<open>afk\<close> (the state being left) at \<open>last_input\<close> with duration 0,
  then status \<open>not-afk\<close> at \<open>last_input + 1ms\<close> with duration 0; the loop goes on in
  state NOT_AFK.
\<close>

theorem leave_afk_tick:
  assumes "\<not> (system \<in> set [''Darwin'', ''Linux''] \<and> ppid env = 1)"
    and "raised env = None"
    and "seconds_since_input env < timeout (settings (self s))"
  shows "loop system True (env # envs) s =
     loop system False envs (s\<lparr>trace := trace s @
        [Heartbeat (bucketname (self s))
           \<lparr>timestamp = now env - timedelta_seconds (seconds_since_input env), duration = 0,
            data = [(''status'', ''afk'')]\<rparr>
           (timeout (settings (self s)) + poll_time (settings (self s))) True,
         Heartbeat (bucketname (self s))
           \<lparr>timestamp = now env - timedelta_seconds (seconds_since_input env) + td1ms,
            duration = 0, data = [(''status'', ''not-afk'')]\<rparr>
           (timeout (settings (self s)) + poll_time (settings (self s))) True,
         Sleep (poll_time (settings (self s)))]\<rparr>)"
proof -
  have "tick_body True env s =
     (False, s\<lparr>trace := trace s @
        [Heartbeat (bucketname (self s))
           \<lparr>timestamp = now env - timedelta_seconds (seconds_since_input env), duration = 0,
            data = [(''status'', ''afk'')]\<rparr>
           (timeout (settings (self s)) + poll_time (settings (self s))) True,
         Heartbeat (bucketname (self s))
           \<lparr>timestamp = now env - timedelta_seconds (seconds_since_input env) + td1ms,
            duration = 0, data = [(''status'', ''not-afk'')]\<rparr>
           (timeout (settings (self s)) + poll_time (settings (self s))) True,
         Sleep (poll_time (settings (self s)))]\<rparr>)"
    using assms(3) by (simp add: tick_body_def Let_def world_eqI)
  then show ?thesis
    by (rule loop_tick [OF assms(1) assms(2)])
qed

text \<open>The amended C1 at timeout 10, poll time 5, an idle time of 9 seconds.\<close>

theorem leave_afk_tick_witness:
  "loop ''Linux'' True
       [\<lparr>ppid = 4242, now = 20000000, seconds_since_input = 9, raised = None\<rparr>]
       \<lparr>self = \<lparr>settings = \<lparr>timeout = 10, poll_time = 5\<rparr>, bucketname = ''u-afk_h''\<rparr>,
        trace = []\<rparr>
   = (Running False,
      \<lparr>self = \<lparr>settings = \<lparr>timeout = 10, poll_time = 5\<rparr>, bucketname = ''u-afk_h''\<rparr>,
       trace =
         [Heartbeat ''u-afk_h''
            \<lparr>timestamp = 11000000, duration = 0, data = [(''status'', ''afk'')]\<rparr> 15 True,
          Heartbeat ''u-afk_h''
            \<lparr>timestamp = 11001000, duration = 0, data = [(''status'', ''not-afk'')]\<rparr> 15 True,
          Sleep 5]\<rparr>)"
  using leave_afk_tick [of "''Linux''"
      "\<lparr>ppid = 4242, now = 20000000, seconds_since_input = 9, raised = None\<rparr>"
      "\<lparr>self = \<lparr>settings = \<lparr>timeout = 10, poll_time = 5\<rparr>, bucketname = ''u-afk_h''\<rparr>,
        trace = []\<rparr>" "[]"]
  by (simp add: td1ms_def timedelta_seconds_def round_half_even_def)

text \<open>
  C2, as stated, fails. With a timeout of 10 seconds, a tick in state NOT_AFK that reads 10
  seconds of idle time at the instant 20 s does not send two \<open>afk\<close> heartbeats: the
  first of the pair is sent before \<^verbatim>\<open>afk\<close> is set and so still carries the status
  \<open>not-afk\<close>.
\<close>

theorem become_afk_first_status_counterexample:
  "heartbeats (trace (snd (loop ''Linux'' False
       [\<lparr>ppid = 4242, now = 20000000, seconds_since_input = 10, raised = None\<rparr>]
       \<lparr>self = \<lparr>settings = \<lparr>timeout = 10, poll_time = 5\<rparr>, bucketname = ''u-afk_h''\<rparr>,
        trace = []\<rparr>)))
   = [(Some ''not-afk'', 10000000, 0), (Some ''afk'', 10001000, 10)] \<and>
   heartbeats (trace (snd (loop ''Linux'' False
       [\<lparr>ppid = 4242, now = 20000000, seconds_since_input = 10, raised = None\<rparr>]
       \<lparr>self = \<lparr>settings = \<lparr>timeout = 10, poll_time = 5\<rparr>, bucketname = ''u-afk_h''\<rparr>,
        trace = []\<rparr>)))
   \<noteq> [(Some ''afk'', 10000000, 0), (Some ''afk'', 10001000, 10)]"
  by (simp add: eval_defs)

text \<open>
  C2, amended. A tick in state NOT_AFK that runs to its end and reads an idle time of at
  least the timeout sends exactly two heartbeats and then sleeps: first status
  \<open>not-afk\<close> (the state being left) at \<open>last_input\<close> with duration 0, then status
  \<open>afk\<close> at \<open>last_input + 1ms\<close> with the idle time as duration; the loop goes on in
  state AFK.
\<close>

theorem become_afk_tick:
  assumes "\<not> (system \<in> set [''Darwin'', ''Linux''] \<and> ppid env = 1)"
    and "raised env = None"
    and "timeout (settings (self s)) \<le> seconds_since_input env"
  shows "loop system False (env # envs) s =
     loop system True envs (s\<lparr>trace := trace s @
        [Heartbeat (bucketname (self s))
           \<lparr>timestamp = now env - timedelta_seconds (seconds_since_input env), duration = 0,
            data = [(''status'', ''not-afk'')]\<rparr>
           (timeout (settings (self s)) + poll_time (settings (self s))) True,
         Heartbeat (bucketname (self s))
           \<lparr>timestamp = now env - timedelta_seconds (seconds_since_input env) + td1ms,
            duration = seconds_since_input env, data = [(''status'', ''afk'')]\<rparr>
           (timeout (settings (self s)) + poll_time (settings (self s))) True,
         Sleep (poll_time (settings (self s)))]\<rparr>)"
proof -
  have "tick_body False env s =
     (True, s\<lparr>trace := trace s @
        [Heartbeat (bucketname (self s))
           \<lparr>timestamp = now env - timedelta_seconds (seconds_since_input env), duration = 0,
            data = [(''status'', ''not-afk'')]\<rparr>
           (timeout (settings (self s)) + poll_time (settings (self s))) True,
         Heartbeat (bucketname (self s))
           \<lparr>timestamp = now env - timedelta_seconds (seconds_since_input env) + td1ms,
            duration = seconds_since_input env, data = [(''status'', ''afk'')]\<rparr>
           (timeout (settings (self s)) + poll_time (settings (self s))) True,
         Sleep (poll_time (settings (self s)))]\<rparr>)"
    using assms(3) by (simp add: tick_body_def Let_def world_eqI)
  then show ?thesis
    by (rule loop_tick [OF assms(1) assms(2)])
qed

text \<open>The amended C2 at timeout 10, poll time 5, an idle time of 10 seconds.\<close>

theorem become_afk_tick_witness:
  "loop ''Linux'' False
       [\<lparr>ppid = 4242, now = 20000000, seconds_since_input = 10, raised = None\<rparr>]
       \<lparr>self = \<lparr>settings = \<lparr>timeout = 10, poll_time = 5\<rparr>, bucketname = ''u-afk_h''\<rparr>,
        trace = []\<rparr>
   = (Running True,
      \<lparr>self = \<lparr>settings = \<lparr>timeout = 10, poll_time = 5\<rparr>, bucketname = ''u-afk_h''\<rparr>,
       trace =
         [Heartbeat ''u-afk_h''
            \<lparr>timestamp = 10000000, duration = 0, data = [(''status'', ''not-afk'')]\<rparr> 15 True,
          Heartbeat ''u-afk_h''
            \<lparr>timestamp = 10001000, duration = 10, data = [(''status'', ''afk'')]\<rparr> 15 True,
          Sleep 5]\<rparr>)"
  using become_afk_tick [of "''Linux''"
      "\<lparr>ppid = 4242, now = 20000000, seconds_since_input = 10, raised = None\<rparr>"
      "\<lparr>self = \<lparr>settings = \<lparr>timeout = 10, poll_time = 5\<rparr>, bucketname = ''u-afk_h''\<rparr>,
        trace = []\<rparr>" "[]"]
  by (simp add: td1ms_def timedelta_seconds_def round_half_even_def)

text \<open>
  C3. Before its first tick the loop is in state NOT_AFK. A tick that runs to its end
  without a change of state sends exactly one heartbeat and then sleeps: staying AFK
  (idle time at least the timeout), status \<open>afk\<close> at \<open>last_input + 1ms\<close> with the idle
  time as duration; staying NOT_AFK (idle time below the timeout), status \<open>not-afk\<close> at
  \<open>last_input\<close> with duration 0.
\<close>

theorem no_change_tick:
  "heartbeat_loop system [] s = (Running False, s) \<and>
   (\<not> (system \<in> set [''Darwin'', ''Linux''] \<and> ppid env = 1) \<and> raised env = None \<and>
    timeout (settings (self s)) \<le> seconds_since_input env \<longrightarrow>
      loop system True (env # envs) s =
        loop system True envs (s\<lparr>trace := trace s @
          [Heartbeat (bucketname (self s))
             \<lparr>timestamp = now env - timedelta_seconds (seconds_since_input env) + td1ms,
              duration = seconds_since_input env, data = [(''status'', ''afk'')]\<rparr>
             (timeout (settings (self s)) + poll_time (settings (self s))) True,
           Sleep (poll_time (settings (self s)))]\<rparr>)) \<and>
   (\<not> (system \<in> set [''Darwin'', ''Linux''] \<and> ppid env = 1) \<and> raised env = None \<and>
    seconds_since_input env < timeout (settings (self s)) \<longrightarrow>
      loop system False (env # envs) s =
        loop system False envs (s\<lparr>trace := trace s @
          [Heartbeat (bucketname (self s))
             \<lparr>timestamp = now env - timedelta_seconds (seconds_since_input env),
              duration = 0, data = [(''status'', ''not-afk'')]\<rparr>
             (timeout (settings (self s)) + poll_time (settings (self s))) True,
           Sleep (poll_time (settings (self s)))]\<rparr>))"
proof (intro conjI impI)
  show "heartbeat_loop system [] s = (Running False, s)"
    by (simp add: heartbeat_loop_def)
next
  assume a: "\<not> (system \<in> set [''Darwin'', ''Linux''] \<and> ppid env = 1) \<and> raised env = None \<and>
    timeout (settings (self s)) \<le> seconds_since_input env"
  then have "tick_body True env s =
     (True, s\<lparr>trace := trace s @
          [Heartbeat (bucketname (self s))
             \<lparr>timestamp = now env - timedelta_seconds (seconds_since_input env) + td1ms,
              duration = seconds_since_input env, data = [(''status'', ''afk'')]\<rparr>
             (timeout (settings (self s)) + poll_time (settings (self s))) True,
           Sleep (poll_time (settings (self s)))]\<rparr>)"
    by (simp add: tick_body_def Let_def world_eqI)
  with a show "loop system True (env # envs) s =
        loop system True envs (s\<lparr>trace := trace s @
          [Heartbeat (bucketname (self s))
             \<lparr>timestamp = now env - timedelta_seconds (seconds_since_input env) + td1ms,
              duration = seconds_since_input env, data = [(''status'', ''afk'')]\<rparr>
             (timeout (settings (self s)) + poll_time (settings (self s))) True,
           Sleep (poll_time (settings (self s)))]\<rparr>)"
    by (intro loop_tick) simp_all
next
  assume a: "\<not> (system \<in> set [''Darwin'', ''Linux''] \<and> ppid env = 1) \<and> raised env = None \<and>
    seconds_since_input env < timeout (settings (self s))"
  then have "tick_body False env s =
     (False, s\<lparr>trace := trace s @
          [Heartbeat (bucketname (self s))
             \<lparr>timestamp = now env - timedelta_seconds (seconds_since_input env),
              duration = 0, data = [(''status'', ''not-afk'')]\<rparr>
             (timeout (settings (self s)) + poll_time (settings (self s))) True,
           Sleep (poll_time (settings (self s)))]\<rparr>)"
    by (simp add: tick_body_def Let_def world_eqI)
  with a show "loop system False (env # envs) s =
        loop system False envs (s\<lparr>trace := trace s @
          [Heartbeat (bucketname (self s))
             \<lparr>timestamp = now env - timedelta_seconds (seconds_since_input env),
              duration = 0, data = [(''status'', ''not-afk'')]\<rparr>
             (timeout (settings (self s)) + poll_time (settings (self s))) True,
           Sleep (poll_time (settings (self s)))]\<rparr>)"
    by (intro loop_tick) simp_all
qed

text \<open>C3 at timeout 10 and poll time 5: staying AFK at 11 seconds, staying NOT_AFK at 5.\<close>

theorem no_change_tick_witness:
  "loop ''Linux'' True
       [\<lparr>ppid = 4242, now = 20000000, seconds_since_input = 11, raised = None\<rparr>]
       \<lparr>self = \<lparr>settings = \<lparr>timeout = 10, poll_time = 5\<rparr>, bucketname = ''u-afk_h''\<rparr>,
        trace = []\<rparr>
   = (Running True,
      \<lparr>self = \<lparr>settings = \<lparr>timeout = 10, poll_time = 5\<rparr>, bucketname = ''u-afk_h''\<rparr>,
       trace =
         [Heartbeat ''u-afk_h''
            \<lparr>timestamp = 9001000, duration = 11, data = [(''status'', ''afk'')]\<rparr> 15 True,
          Sleep 5]\<rparr>) \<and>
   loop ''Linux'' False
       [\<lparr>ppid = 4242, now = 20000000, seconds_since_input = 5, raised = None\<rparr>]
       \<lparr>self = \<lparr>settings = \<lparr>timeout = 10, poll_time = 5\<rparr>, bucketname = ''u-afk_h''\<rparr>,
        trace = []\<rparr>
   = (Running False,
      \<lparr>self = \<lparr>settings = \<lparr>timeout = 10, poll_time = 5\<rparr>, bucketname = ''u-afk_h''\<rparr>,
       trace =
         [Heartbeat ''u-afk_h''
            \<lparr>timestamp = 15000000, duration = 0, data = [(''status'', ''not-afk'')]\<rparr> 15 True,
          Sleep 5]\<rparr>)"
  using no_change_tick [of "''Linux''"
      "\<lparr>self = \<lparr>settings = \<lparr>timeout = 10, poll_time = 5\<rparr>, bucketname = ''u-afk_h''\<rparr>,
        trace = []\<rparr>"
      "\<lparr>ppid = 4242, now = 20000000, seconds_since_input = 11, raised = None\<rparr>" "[]"]
    no_change_tick [of "''Linux''"
      "\<lparr>self = \<lparr>settings = \<lparr>timeout = 10, poll_time = 5\<rparr>, bucketname = ''u-afk_h''\<rparr>,
        trace = []\<rparr>"
      "\<lparr>ppid = 4242, now = 20000000, seconds_since_input = 5, raised = None\<rparr>" "[]"]
  by (simp add: td1ms_def timedelta_seconds_def round_half_even_def)

section \<open>Invariants of the loop\<close>

text \<open>
  C9. Whenever the loop is alive after a tick, its flag \<^verbatim>\<open>afk\<close> says whether the idle
  time read in that tick was at least the timeout, whatever the flag was when the loop
  started and whatever the earlier ticks read. The body of a tick sets the flag to that
  comparison, and it changes the flag only in the two branches that send two heartbeats: a
  tick that keeps the flag sends one heartbeat, a tick that changes it sends two.
\<close>

theorem flag_follows_sample:
  "(loop system afk (envs @ [env]) s = (Running a, s') \<longrightarrow>
      a = (timeout (settings (self s)) \<le> seconds_since_input env)) \<and>
   fst (tick_body afk env s) = (timeout (settings (self s)) \<le> seconds_since_input env) \<and>
   length (heartbeats (drop (length (trace s)) (trace (snd (tick_body afk env s))))) =
     (if fst (tick_body afk env s) = afk then 1 else 2)"
proof (intro conjI impI)
  assume r: "loop system afk (envs @ [env]) s = (Running a, s')"
  obtain out s1 where l: "loop system afk envs s = (out, s1)"
    by (cases "loop system afk envs s")
  from r l obtain a1 where out: "out = Running a1"
    by (cases out) (simp_all add: loop_append)
  from r l out have "loop system a1 [env] s1 = (Running a, s')"
    by (simp add: loop_append)
  then have "a = fst (tick_body a1 env s1)"
    by (rule loop_single_running)
  moreover have "self s1 = self s"
    using loop_self [of system afk envs s] l by simp
  ultimately show "a = (timeout (settings (self s)) \<le> seconds_since_input env)"
    by (simp add: fst_tick_body)
next
  show "fst (tick_body afk env s) = (timeout (settings (self s)) \<le> seconds_since_input env)"
    by (rule fst_tick_body)
next
  show "length (heartbeats (drop (length (trace s)) (trace (snd (tick_body afk env s))))) =
     (if fst (tick_body afk env s) = afk then 1 else 2)"
    by (simp add: tick_body_def Let_def)
qed

text \<open>
  C9 on two ticks at timeout 10: 5 seconds of idle time, then 10; the loop is alive in
  state AFK.
\<close>

theorem flag_follows_sample_witness:
  "loop ''Linux'' False
     ([\<lparr>ppid = 4242, now = 20000000, seconds_since_input = 5, raised = None\<rparr>] @
      [\<lparr>ppid = 4242, now = 25000000, seconds_since_input = 10, raised = None\<rparr>])
     \<lparr>self = \<lparr>settings = \<lparr>timeout = 10, poll_time = 5\<rparr>, bucketname = ''u-afk_h''\<rparr>,
      trace = []\<rparr>
   = (Running True,
      \<lparr>self = \<lparr>settings = \<lparr>timeout = 10, poll_time = 5\<rparr>, bucketname = ''u-afk_h''\<rparr>,
       trace =
         [Heartbeat ''u-afk_h''
            \<lparr>timestamp = 15000000, duration = 0, data = [(''status'', ''not-afk'')]\<rparr> 15 True,
          Sleep 5,
          Heartbeat ''u-afk_h''
            \<lparr>timestamp = 15000000, duration = 0, data = [(''status'', ''not-afk'')]\<rparr> 15 True,
          Heartbeat ''u-afk_h''
            \<lparr>timestamp = 15001000, duration = 10, data = [(''status'', ''afk'')]\<rparr> 15 True,
          Sleep 5]\<rparr>)"
  using flag_follows_sample [of "''Linux''" False
     "[\<lparr>ppid = 4242, now = 20000000, seconds_since_input = 5, raised = None\<rparr>]"
     "\<lparr>ppid = 4242, now = 25000000, seconds_since_input = 10, raised = None\<rparr>"
     "\<lparr>self = \<lparr>settings = \<lparr>timeout = 10, poll_time = 5\<rparr>, bucketname = ''u-afk_h''\<rparr>,
      trace = []\<rparr>" True]
  by (simp add: eval_defs)

lemma AFKWatcher_init_Inr:
  "AFKWatcher_init lc u h a tst = Inr w \<Longrightarrow>
   Settings_init (lc tst) (args_timeout a) (args_poll_time a) = Inr (settings w) \<and>
   bucketname w = u @ ''-afk_'' @ h"
  by (auto simp: AFKWatcher_init_def split: sum.splits)

lemma main_trace:
  "\<not> running_over_ssh environ \<Longrightarrow>
   AFKWatcher_init lc u h a (args_testing a) = Inr w \<Longrightarrow>
   snd (main environ a lc u h system envs) =
     trace (snd (run system envs
       \<lparr>self = w,
        trace = [Setup_logging ''aw-watcher-afk'' (args_testing a) (args_verbose a) True True]\<rparr>))"
  by (simp add: main_def Let_def split: prod.splits)

lemma main_effects:
  assumes "c \<in> set (snd (main environ a lc u h system envs))"
  shows "(\<exists>w. AFKWatcher_init lc u h a (args_testing a) = Inr w \<and> stamped w c) \<or>
         (bucket_of c = None \<and> pulsetime_of c = None)"
proof (cases "running_over_ssh environ")
  case True
  with assms show ?thesis by (simp add: main_def)
next
  case False
  show ?thesis
  proof (cases "AFKWatcher_init lc u h a (args_testing a)")
    case (Inl e)
    with False assms show ?thesis by (auto simp: main_def Let_def)
  next
    case (Inr w)
    let ?t0 = "[Setup_logging ''aw-watcher-afk'' (args_testing a) (args_verbose a) True True]"
    obtain effs where e: "snd (run system envs \<lparr>self = w, trace = ?t0\<rparr>) =
          \<lparr>self = w, trace = ?t0 @ Wait_for_start #
             Create_bucket (bucketname w) ''afkstatus'' True # Client_enter # effs\<rparr>"
        and g: "\<forall>c \<in> set effs. stamped w c"
      using run_effects [of system envs "\<lparr>self = w, trace = ?t0\<rparr>"] by auto
    have "snd (main environ a lc u h system envs) =
        ?t0 @ Wait_for_start # Create_bucket (bucketname w) ''afkstatus'' True #
          Client_enter # effs"
      using e by (simp add: main_trace [OF False Inr])
    with assms have "c \<in> set effs \<or> stamped w c \<or> (bucket_of c = None \<and> pulsetime_of c = None)"
      by (auto simp: stamped_def)
    with g Inr show ?thesis by auto
  qed
qed

text \<open>
  C6. For a watcher that \<^verbatim>\<open>AFKWatcher.__init__\<close> has constructed, the settings are
  the ones that \<^verbatim>\<open>Settings.__init__\<close> resolved; \<^verbatim>\<open>run\<close> leaves the object as it
  was constructed, on every sequence of ticks and however it ends; and every heartbeat it
  sends (in a transition pair or alone) has the pulsetime \<open>timeout + poll_time\<close> of these
  settings, also among all the effects of \<^verbatim>\<open>main\<close>.
\<close>

theorem pulsetime_invariant:
  assumes "AFKWatcher_init lc u h a (args_testing a) = Inr w"
  shows "Settings_init (lc (args_testing a)) (args_timeout a) (args_poll_time a) =
       Inr (settings w) \<and>
     self (snd (run system envs \<lparr>self = w, trace = t0\<rparr>)) = w \<and>
     (\<forall>c \<in> set (drop (length t0) (trace (snd (run system envs \<lparr>self = w, trace = t0\<rparr>)))).
        \<forall>p. pulsetime_of c = Some p \<longrightarrow> p = timeout (settings w) + poll_time (settings w)) \<and>
     (\<forall>c \<in> set (snd (main environ a lc u h system envs)).
        \<forall>p. pulsetime_of c = Some p \<longrightarrow> p = timeout (settings w) + poll_time (settings w))"
proof -
  obtain effs where e: "snd (run system envs \<lparr>self = w, trace = t0\<rparr>) =
        \<lparr>self = w, trace = t0 @ Wait_for_start #
           Create_bucket (bucketname w) ''afkstatus'' True # Client_enter # effs\<rparr>"
      and g: "\<forall>c \<in> set effs. stamped w c"
    using run_effects [of system envs "\<lparr>self = w, trace = t0\<rparr>"] by auto
  have "\<forall>c \<in> set effs. \<forall>p. pulsetime_of c = Some p \<longrightarrow>
          p = timeout (settings w) + poll_time (settings w)"
    using g by (auto simp: stamped_def)
  moreover have "\<forall>c \<in> set (snd (main environ a lc u h system envs)).
        \<forall>p. pulsetime_of c = Some p \<longrightarrow> p = timeout (settings w) + poll_time (settings w)"
    using main_effects [of _ environ a lc u h system envs] assms
    by (fastforce simp: stamped_def)
  ultimately show ?thesis
    using e AFKWatcher_init_Inr [OF assms] by auto
qed

text \<open>
  C6 at timeout 10 and poll time 5, on a tick that becomes AFK followed by the death of
  the parent: both heartbeats have pulsetime 15.
\<close>

theorem pulsetime_invariant_witness:
  "AFKWatcher_init (\<lambda>testing. map_of [(''timeout'', 10), (''poll_time'', 5)]) ''u'' ''h''
     \<lparr>args_timeout = None, args_poll_time = None, args_testing = False, args_verbose = False\<rparr>
     False
   = Inr \<lparr>settings = \<lparr>timeout = 10, poll_time = 5\<rparr>, bucketname = ''u-afk_h''\<rparr> \<and>
   map pulsetime_of (trace (snd (run ''Linux''
     [\<lparr>ppid = 4242, now = 20000000, seconds_since_input = 10, raised = None\<rparr>,
      \<lparr>ppid = 1, now = 25000000, seconds_since_input = 15, raised = None\<rparr>]
     \<lparr>self = \<lparr>settings = \<lparr>timeout = 10, poll_time = 5\<rparr>, bucketname = ''u-afk_h''\<rparr>,
      trace = []\<rparr>)))
   = [None, None, None, Some 15, Some 15, None, None]"
  using pulsetime_invariant [of "\<lambda>testing. map_of [(''timeout'', 10), (''poll_time'', 5)]"
     "''u''" "''h''"
     "\<lparr>args_timeout = None, args_poll_time = None, args_testing = False, args_verbose = False\<rparr>"
     "\<lparr>settings = \<lparr>timeout = 10, poll_time = 5\<rparr>, bucketname = ''u-afk_h''\<rparr>"
     "''Linux''"
     "[\<lparr>ppid = 4242, now = 20000000, seconds_since_input = 10, raised = None\<rparr>,
      \<lparr>ppid = 1, now = 25000000, seconds_since_input = 15, raised = None\<rparr>]" "[]"]
  by (simp add: AFKWatcher_init_def Settings_init_def or_else_def getitem_def run_def
      heartbeat_loop_def eval_defs)

text \<open>
  C7. For a watcher that \<^verbatim>\<open>AFKWatcher.__init__\<close> has constructed, the bucket name is
  the user name, \<open>-afk_\<close> and the client's host name; \<^verbatim>\<open>run\<close> leaves the object as it
  was constructed; \<^verbatim>\<open>run\<close> creates the bucket of that name with the event type
  \<open>afkstatus\<close>; and every call of \<^verbatim>\<open>create_bucket\<close> and \<^verbatim>\<open>heartbeat\<close> that it
  makes names that bucket, also among all the effects of \<^verbatim>\<open>main\<close>.
\<close>

theorem bucketname_fixed:
  assumes "AFKWatcher_init lc u h a (args_testing a) = Inr w"
  shows "bucketname w = u @ ''-afk_'' @ h \<and>
     self (snd (run system envs \<lparr>self = w, trace = t0\<rparr>)) = w \<and>
     Create_bucket (u @ ''-afk_'' @ h) ''afkstatus'' True
       \<in> set (drop (length t0) (trace (snd (run system envs \<lparr>self = w, trace = t0\<rparr>)))) \<and>
     (\<forall>c \<in> set (drop (length t0) (trace (snd (run system envs \<lparr>self = w, trace = t0\<rparr>)))).
        \<forall>b. bucket_of c = Some b \<longrightarrow> b = u @ ''-afk_'' @ h) \<and>
     (\<forall>c \<in> set (snd (main environ a lc u h system envs)).
        \<forall>b. bucket_of c = Some b \<longrightarrow> b = u @ ''-afk_'' @ h)"
proof -
  obtain effs where e: "snd (run system envs \<lparr>self = w, trace = t0\<rparr>) =
        \<lparr>self = w, trace = t0 @ Wait_for_start #
           Create_bucket (bucketname w) ''afkstatus'' True # Client_enter # effs\<rparr>"
      and g: "\<forall>c \<in> set effs. stamped w c"
    using run_effects [of system envs "\<lparr>self = w, trace = t0\<rparr>"] by auto
  have "\<forall>c \<in> set effs. \<forall>b. bucket_of c = Some b \<longrightarrow> b = bucketname w"
    using g by (auto simp: stamped_def)
  moreover have "\<forall>c \<in> set (snd (main environ a lc u h system envs)).
        \<forall>b. bucket_of c = Some b \<longrightarrow> b = bucketname w"
    using main_effects [of _ environ a lc u h system envs] assms
    by (fastforce simp: stamped_def)
  ultimately show ?thesis
    using e AFKWatcher_init_Inr [OF assms] by auto
qed

text \<open>C7 for the user \<open>u\<close> on the host \<open>h\<close>, on the same two ticks.\<close>

theorem bucketname_fixed_witness:
  "AFKWatcher_init (\<lambda>testing. map_of [(''timeout'', 10), (''poll_time'', 5)]) ''u'' ''h''
     \<lparr>args_timeout = None, args_poll_time = None, args_testing = False, args_verbose = False\<rparr>
     False
   = Inr \<lparr>settings = \<lparr>timeout = 10, poll_time = 5\<rparr>, bucketname = ''u-afk_h''\<rparr> \<and>
   map bucket_of (trace (snd (run ''Linux''
     [\<lparr>ppid = 4242, now = 20000000, seconds_since_input = 10, raised = None\<rparr>,
      \<lparr>ppid = 1, now = 25000000, seconds_since_input = 15, raised = None\<rparr>]
     \<lparr>self = \<lparr>settings = \<lparr>timeout = 10, poll_time = 5\<rparr>, bucketname = ''u-afk_h''\<rparr>,
      trace = []\<rparr>)))
   = [None, Some ''u-afk_h'', None, Some ''u-afk_h'', Some ''u-afk_h'', None, None]"
  using bucketname_fixed [of "\<lambda>testing. map_of [(''timeout'', 10), (''poll_time'', 5)]"
     "''u''" "''h''"
     "\<lparr>args_timeout = None, args_poll_time = None, args_testing = False, args_verbose = False\<rparr>"
     "\<lparr>settings = \<lparr>timeout = 10, poll_time = 5\<rparr>, bucketname = ''u-afk_h''\<rparr>"
     "''Linux''"
     "[\<lparr>ppid = 4242, now = 20000000, seconds_since_input = 10, raised = None\<rparr>,
      \<lparr>ppid = 1, now = 25000000, seconds_since_input = 15, raised = None\<rparr>]" "[]"]
  by (simp add: AFKWatcher_init_def Settings_init_def or_else_def getitem_def run_def
      heartbeat_loop_def eval_defs)

section \<open>Stopping\<close>

text \<open>
  C8. In any tick, from any state of the loop: when the system is Darwin or Linux and the
  parent process id is 1 at the start of the tick, the loop returns without any effect in
  that tick or later; when a \<^verbatim>\<open>KeyboardInterrupt\<close> is raised in the tick after \<open>k\<close>
  of its effects, the loop returns (it does not raise), and it has performed at most those
  \<open>k\<close> effects since the start of the tick: nothing after the interrupt, and nothing of
  the later ticks.
\<close>

theorem graceful_stop:
  "(system \<in> set [''Darwin'', ''Linux''] \<and> ppid env = 1 \<longrightarrow>
      loop system afk (env # envs) s = (Returned, s)) \<and>
   (raised env = Some (k, KeyboardInterrupt) \<longrightarrow>
      fst (loop system afk (env # envs) s) = Returned \<and>
      (\<exists>effs. snd (loop system afk (env # envs) s) = s\<lparr>trace := trace s @ effs\<rparr> \<and>
              length effs \<le> k))"
proof (intro conjI impI)
  assume "system \<in> set [''Darwin'', ''Linux''] \<and> ppid env = 1"
  then show "loop system afk (env # envs) s = (Returned, s)"
    by (rule loop_parent_died)
next
  assume ki: "raised env = Some (k, KeyboardInterrupt)"
  then show "fst (loop system afk (env # envs) s) = Returned"
    by (simp split: prod.splits)
next
  assume ki: "raised env = Some (k, KeyboardInterrupt)"
  obtain e1 where e1: "snd (tick_body afk env s) = s\<lparr>trace := trace s @ e1\<rparr>"
    using tick_body_effects by blast
  obtain afk' where tb: "tick_body afk env s = (afk', s\<lparr>trace := trace s @ e1\<rparr>)"
    using e1 by (cases "tick_body afk env s") simp
  show "\<exists>effs. snd (loop system afk (env # envs) s) = s\<lparr>trace := trace s @ effs\<rparr> \<and>
              length effs \<le> k"
  proof (cases "system \<in> set [''Darwin'', ''Linux''] \<and> ppid env = 1")
    case True
    then have "snd (loop system afk (env # envs) s) = s\<lparr>trace := trace s @ []\<rparr>"
      by (simp only: loop_parent_died) simp
    then show ?thesis
      by (metis le0 list.size(3))
  next
    case False
    have "snd (loop system afk (env # envs) s) = s\<lparr>trace := trace s @ take k e1\<rparr>"
      by (simp only: loop_raised [OF False ki tb]) (simp add: cut_at_effects)
    moreover have "length (take k e1) \<le> k" by simp
    ultimately show ?thesis by blast
  qed
qed

text \<open>
  C8 on Linux with a dead parent, and on Windows with an interrupt after the first
  heartbeat of a transition.
\<close>

theorem graceful_stop_witness:
  "loop ''Linux'' True
     [\<lparr>ppid = 1, now = 20000000, seconds_since_input = 9, raised = None\<rparr>,
      \<lparr>ppid = 1, now = 25000000, seconds_since_input = 9, raised = None\<rparr>]
     \<lparr>self = \<lparr>settings = \<lparr>timeout = 10, poll_time = 5\<rparr>, bucketname = ''u-afk_h''\<rparr>,
      trace = []\<rparr>
   = (Returned,
      \<lparr>self = \<lparr>settings = \<lparr>timeout = 10, poll_time = 5\<rparr>, bucketname = ''u-afk_h''\<rparr>,
       trace = []\<rparr>) \<and>
   loop ''Windows'' True
     [\<lparr>ppid = 4242, now = 20000000, seconds_since_input = 9,
       raised = Some (1, KeyboardInterrupt)\<rparr>,
      \<lparr>ppid = 4242, now = 25000000, seconds_since_input = 9, raised = None\<rparr>]
     \<lparr>self = \<lparr>settings = \<lparr>timeout = 10, poll_time = 5\<rparr>, bucketname = ''u-afk_h''\<rparr>,
      trace = []\<rparr>
   = (Returned,
      \<lparr>self = \<lparr>settings = \<lparr>timeout = 10, poll_time = 5\<rparr>, bucketname = ''u-afk_h''\<rparr>,
       trace =
         [Heartbeat ''u-afk_h''
            \<lparr>timestamp = 11000000, duration = 0, data = [(''status'', ''afk'')]\<rparr> 15 True]\<rparr>)"
  using graceful_stop [of "''Linux''"
      "\<lparr>ppid = 1, now = 20000000, seconds_since_input = 9, raised = None\<rparr>" True
      "[\<lparr>ppid = 1, now = 25000000, seconds_since_input = 9, raised = None\<rparr>]"
      "\<lparr>self = \<lparr>settings = \<lparr>timeout = 10, poll_time = 5\<rparr>, bucketname = ''u-afk_h''\<rparr>,
        trace = []\<rparr>" 0]
    graceful_stop [of "''Windows''"
      "\<lparr>ppid = 4242, now = 20000000, seconds_since_input = 9,
        raised = Some (1, KeyboardInterrupt)\<rparr>" True
      "[\<lparr>ppid = 4242, now = 25000000, seconds_since_input = 9, raised = None\<rparr>]"
      "\<lparr>self = \<lparr>settings = \<lparr>timeout = 10, poll_time = 5\<rparr>, bucketname = ''u-afk_h''\<rparr>,
        trace = []\<rparr>" 1]
  by (simp add: eval_defs)

text \<open>
  C10. When \<^verbatim>\<open>SSH_CLIENT\<close> or \<^verbatim>\<open>SSH_TTY\<close> is set to a non-empty string,
  \<^verbatim>\<open>main\<close> exits with code 0 and has done nothing: no logging set-up, no watcher (so
  no resolution of settings, whatever the configuration and the overrides are), no bucket,
  no heartbeat.
\<close>

theorem ssh_exits_first:
  assumes "environ ''SSH_CLIENT'' = Some v \<or> environ ''SSH_TTY'' = Some v" and "v \<noteq> []"
  shows "main environ a lc u h system envs = (Exited 0, [])"
proof -
  have "running_over_ssh environ"
    using assms by (auto simp: running_over_ssh_def truthy_def)
  then show ?thesis
    by (simp add: main_def)
qed

text \<open>
  C10 with \<^verbatim>\<open>SSH_TTY\<close> set, on overrides and a configuration that
  \<^verbatim>\<open>Settings.__init__\<close> would refuse.
\<close>

theorem ssh_exits_first_witness:
  "main (map_of [(''SSH_TTY'', ''/dev/pts/0'')])
     \<lparr>args_timeout = Some 3, args_poll_time = Some 5, args_testing = False,
      args_verbose = False\<rparr>
     (\<lambda>testing. Map.empty) ''u'' ''h'' ''Linux''
     [\<lparr>ppid = 4242, now = 20000000, seconds_since_input = 9, raised = None\<rparr>]
   = (Exited 0, [])"
  using ssh_exits_first [of "map_of [(''SSH_TTY'', ''/dev/pts/0'')]" "''/dev/pts/0''"
     "\<lparr>args_timeout = Some 3, args_poll_time = Some 5, args_testing = False,
       args_verbose = False\<rparr>"
     "\<lambda>testing. Map.empty" "''u''" "''h''" "''Linux''"
     "[\<lparr>ppid = 4242, now = 20000000, seconds_since_input = 9, raised = None\<rparr>]"]
  by simp

end
